theory Spec2Isabelle
  imports Main
begin

section \<open>The BLT compiler front end (bltc_app.hpp, bltc_app.cpp)\<close>

text \<open>
  A shallow embedding of \<^verbatim>\<open>be::bltc::BltcApp\<close>: the command-line handlers of the
  constructor, the setup phase and the job loop of \<^verbatim>\<open>operator()\<close>, and the four
  \<^verbatim>\<open>process_*\<close> member functions. The member variables are a record that every
  function takes and returns; a \<^verbatim>\<open>Job&\<close> parameter is a job taken and returned;
  an exception is a value of the type \<open>exn\<close>. The member functions keep their names
  without the trailing underscore.

  The libraries the application calls (the filesystem library, \<^verbatim>\<open>be::util\<close>,
  \<^verbatim>\<open>be::blt\<close>, the standard streams) are not part of the repository. Their answers
  are the fields of the record \<open>env\<close>. An operation that touches the outside world takes
  the list of effects the run has had so far, so that its answer may change as the run
  writes files.
\<close>

subsection \<open>Data\<close>

type_synonym path = string
  \<comment> \<open>\<^verbatim>\<open>be::Path\<close>, kept as its string: \<^verbatim>\<open>Path(s)\<close> and \<^verbatim>\<open>p.string()\<close> are the identity,
      \<^verbatim>\<open>p.empty()\<close> is \<open>p = []\<close>\<close>

datatype SourceType = SourceType_path | SourceType_raw | SourceType_console

datatype DestType = DestType_path | DestType_console

record Job =
  source :: string
  dest :: string
  source_type :: SourceType
  dest_type :: DestType

text \<open>
  The exceptions the handlers tell apart. \<open>StdException\<close> is any \<^verbatim>\<open>std::exception\<close>
  that is none of the others (\<^verbatim>\<open>std::ios::failure\<close> is one).
\<close>

datatype exn = FilesystemError | Fatal | OptionException | ArgumentException | StdException

datatype sink = FileStream string | StdCout

text \<open>The effects of a run, in the order they happen.\<close>

datatype event =
    DescribeHelp string bool
      \<comment> \<open>\<^verbatim>\<open>proc.describe(std::cout, help_query)\<close>; the flag tells whether the version and
          license lines had been added to the processor\<close>
  | DescribeVersion
      \<comment> \<open>the prologue and license sections alone\<close>
  | CreateDirectories path
  | Glob string "path list"
  | GetFileContents path
  | OfsOpen string
  | UseCout
  | CompileBlt string sink
  | DebugBlt string sink
  | ReadStdin

datatype open_result =
    OpenGood
  | OpenFailed
      \<comment> \<open>\<^verbatim>\<open>std::ofstream::open\<close> reports a failure in the stream's state; the stream
          is default-constructed, so its exception mask is empty\<close>
  | OpenThrew exn

datatype blt_result = BltOk | BltRecoverable | BltThrew exn
  \<comment> \<open>\<open>BltRecoverable\<close>: a \<^verbatim>\<open>RecoverableException<void>\<close>\<close>

record env =
  parse_path :: "string \<Rightarrow> path"
  parse_multi_path :: "string \<Rightarrow> path list"
  is_absolute :: "path \<Rightarrow> bool"
  path_append :: "path \<Rightarrow> path \<Rightarrow> path"
  replace_extension :: "path \<Rightarrow> string \<Rightarrow> path"
  cwd :: "exn + path"
  fs_absolute :: "path \<Rightarrow> exn + path"
  fs_exists :: "event list \<Rightarrow> path \<Rightarrow> exn + bool"
  fs_create_directories :: "event list \<Rightarrow> path \<Rightarrow> exn option"
  fs_is_directory :: "event list \<Rightarrow> path \<Rightarrow> exn + bool"
  glob :: "event list \<Rightarrow> string \<Rightarrow> path list \<Rightarrow> exn + path list"
  get_file_contents_string :: "event list \<Rightarrow> path \<Rightarrow> exn + string"
  ofs_open :: "event list \<Rightarrow> string \<Rightarrow> open_result"
  cout_good :: "event list \<Rightarrow> bool"
  blt :: "event list \<Rightarrow> bool \<Rightarrow> string \<Rightarrow> sink \<Rightarrow> blt_result"
  cin_rdbuf :: "event list \<Rightarrow> string"

text \<open>
  The members of \<^verbatim>\<open>BltcApp\<close>. \<open>status\<close> is the \<^verbatim>\<open>I8 status_\<close>: it only ever
  holds 0 to 6, so an \<open>int\<close> stands for it. Three more fields hold what the member
  functions share outside the object: \<open>stdin_cache\<close> is the function-local static of
  \<^verbatim>\<open>get_stdin\<close>; \<open>cin_fail\<close> is the state of \<^verbatim>\<open>std::cin\<close> as line 23 tests it
  (\<^verbatim>\<open>fail()\<close> holds whenever \<^verbatim>\<open>bad()\<close> does); \<open>trace\<close> is the effects so far.
\<close>

record BltcApp =
  debug_mode :: bool
  status :: int
  search_paths :: "path list"
  jobs :: "Job list"
  output_path :: path
  stdin_cache :: "string option"
  cin_fail :: bool
  trace :: "event list"

definition emit :: "event \<Rightarrow> BltcApp \<Rightarrow> BltcApp" where
  "emit e st = st\<lparr>trace := trace st @ [e]\<rparr>"

subsection \<open>Standard input\<close>

text \<open>
  Lines 19 to 28. \<^verbatim>\<open>oss << std::cin.rdbuf()\<close> copies what the stream buffer of
  \<^verbatim>\<open>std::cin\<close> gives; whatever happens to the copy is recorded in the state of \<^verbatim>\<open>oss\<close>,
  never in that of \<^verbatim>\<open>std::cin\<close>, which the function then tests. Nothing else in the
  program reads \<^verbatim>\<open>std::cin\<close>, so no function here changes \<open>cin_fail\<close>, and a run
  starts with it unset.
\<close>

definition process_stdin :: "env \<Rightarrow> BltcApp \<Rightarrow> exn + string" where
  "process_stdin env st =
     (if cin_fail st then Inl StdException else Inr (cin_rdbuf env (trace st)))"

text \<open>
  \<^verbatim>\<open>static S input = process_stdin();\<close> the initialisation runs at the first call, and
  again at the next one when it threw.
\<close>

definition get_stdin :: "env \<Rightarrow> BltcApp \<Rightarrow> (exn + string) \<times> BltcApp" where
  "get_stdin env st =
     (case stdin_cache st of
        Some input \<Rightarrow> (Inr input, st)
      | None \<Rightarrow>
          (case process_stdin env st of
             Inl e \<Rightarrow> (Inl e, emit ReadStdin st)
           | Inr input \<Rightarrow> (Inr input, (emit ReadStdin st)\<lparr>stdin_cache := Some input\<rparr>)))"

subsection \<open>\<^verbatim>\<open>process_raw_\<close>\<close>

text \<open>
  Lines 461 to 498: the choice of the output stream. The result is \<open>None\<close> when
  \<^verbatim>\<open>os\<close> is still null, and otherwise the stream with its state (\<open>True\<close> when it is good).
  The three handlers around \<^verbatim>\<open>ofs.open\<close> do the same to the status.
\<close>

definition open_output :: "env \<Rightarrow> Job \<Rightarrow> BltcApp \<Rightarrow> (sink \<times> bool) option \<times> BltcApp" where
  "open_output env job st =
     (if dest_type job = DestType_path then
        (case ofs_open env (trace st) (dest job) of
           OpenGood \<Rightarrow> (Some (FileStream (dest job), True), emit (OfsOpen (dest job)) st)
         | OpenFailed \<Rightarrow> (Some (FileStream (dest job), False), emit (OfsOpen (dest job)) st)
         | OpenThrew e \<Rightarrow>
             (None, (emit (OfsOpen (dest job)) st)\<lparr>status := max (status st) 5\<rparr>))
      else (Some (StdCout, cout_good env (trace st)), emit UseCout st))"

definition blt_event :: "bool \<Rightarrow> string \<Rightarrow> sink \<Rightarrow> event" where
  "blt_event debug data os = (if debug then DebugBlt data os else CompileBlt data os)"

text \<open>
  The first component of the result is the exception that leaves the function, if any:
  only \<^verbatim>\<open>RecoverableException<void>\<close> is caught around the transform.
\<close>

definition process_raw :: "env \<Rightarrow> string \<Rightarrow> Job \<Rightarrow> BltcApp \<Rightarrow> exn option \<times> BltcApp" where
  "process_raw env data job st =
     (case open_output env job st of
        (None, st1) \<Rightarrow> (None, st1)
      | (Some (os, good), st1) \<Rightarrow>
          (if good then
             (case blt env (trace st1) (debug_mode st1) data os of
                BltOk \<Rightarrow> (None, emit (blt_event (debug_mode st1) data os) st1)
              | BltRecoverable \<Rightarrow>
                  (None, (emit (blt_event (debug_mode st1) data os) st1)
                            \<lparr>status := max (status st1) 6\<rparr>)
              | BltThrew e \<Rightarrow> (Some e, emit (blt_event (debug_mode st1) data os) st1))
           else (None, st1)))"

subsection \<open>\<^verbatim>\<open>process_path_\<close> and \<^verbatim>\<open>process_non_path_\<close>\<close>

text \<open>
  Lines 387 to 407, the destination of a file input. \<^verbatim>\<open>dest.is_relative()\<close> is the
  negation of \<^verbatim>\<open>is_absolute()\<close>.
\<close>

definition plan_path_dest :: "env \<Rightarrow> path \<Rightarrow> path \<Rightarrow> Job \<Rightarrow> Job" where
  "plan_path_dest env out p job =
     (if dest_type job = DestType_path then
        (if dest job = [] then
           job\<lparr>dest := replace_extension env
                          (if out = [] then p else path_append env out p) ''lua''\<rparr>
         else
           job\<lparr>dest := (if \<not> is_absolute env (dest job) \<and> out \<noteq> []
                         then path_append env out (dest job) else dest job)\<rparr>)
      else job)"

text \<open>
  The job comes back as the function leaves it, since the caller passed a reference. All
  three handlers of the read raise the status to 4 and return.
\<close>

definition process_path ::
  "env \<Rightarrow> path \<Rightarrow> Job \<Rightarrow> BltcApp \<Rightarrow> exn option \<times> Job \<times> BltcApp" where
  "process_path env p job st =
     (let job1 = plan_path_dest env (output_path st) p job in
      case get_file_contents_string env (trace st) p of
        Inl e \<Rightarrow> (None, job1, (emit (GetFileContents p) st)\<lparr>status := max (status st) 4\<rparr>)
      | Inr data \<Rightarrow>
          (case process_raw env data job1 (emit (GetFileContents p) st) of
             (r, st2) \<Rightarrow> (r, job1, st2)))"

text \<open>Lines 444 to 455, the destination of a template that is not a file.\<close>

definition plan_non_path_dest :: "env \<Rightarrow> path \<Rightarrow> Job \<Rightarrow> Job" where
  "plan_non_path_dest env out job =
     (if dest_type job = DestType_path then
        (if dest job = [] then job\<lparr>dest_type := DestType_console\<rparr>
         else
           job\<lparr>dest := (if \<not> is_absolute env (dest job) \<and> out \<noteq> []
                         then path_append env out (dest job) else dest job)\<rparr>)
      else job)"

definition process_non_path ::
  "env \<Rightarrow> string \<Rightarrow> Job \<Rightarrow> BltcApp \<Rightarrow> exn option \<times> Job \<times> BltcApp" where
  "process_non_path env data job st =
     (let job1 = plan_non_path_dest env (output_path st) job in
      case process_raw env data job1 st of (r, st1) \<Rightarrow> (r, job1, st1))"

subsection \<open>\<^verbatim>\<open>process_\<close>\<close>

text \<open>
  Line 315: \<^verbatim>\<open>source.is_absolute() && fs::exists(source)\<close>; the second operand is
  evaluated only when the first holds.
\<close>

definition absolute_and_exists :: "env \<Rightarrow> path \<Rightarrow> BltcApp \<Rightarrow> exn + bool" where
  "absolute_and_exists env src st =
     (if is_absolute env src then fs_exists env (trace st) src else Inr False)"

text \<open>
  Lines 331 to 334: every match is processed with a fresh copy of the job; an exception
  that leaves \<^verbatim>\<open>process_path_\<close> ends the loop.
\<close>

fun process_matches :: "env \<Rightarrow> path list \<Rightarrow> Job \<Rightarrow> BltcApp \<Rightarrow> exn option \<times> BltcApp" where
  "process_matches env [] job st = (None, st)"
| "process_matches env (p # ps) job st =
     (case process_path env p job st of
        (Some e, copy, st1) \<Rightarrow> (Some e, st1)
      | (None, copy, st1) \<Rightarrow> process_matches env ps job st1)"

text \<open>The body of the \<^verbatim>\<open>try\<close> block, lines 308 to 361.\<close>

definition process_try :: "env \<Rightarrow> Job \<Rightarrow> BltcApp \<Rightarrow> exn option \<times> Job \<times> BltcApp" where
  "process_try env job st =
     (if source_type job = SourceType_path then
        (case absolute_and_exists env (parse_path env (source job)) st of
           Inl e \<Rightarrow> (Some e, job, st)
         | Inr True \<Rightarrow> process_path env (parse_path env (source job)) job st
         | Inr False \<Rightarrow>
             (case glob env (trace st) (source job) (search_paths st) of
                Inl e \<Rightarrow> (Some e, job, emit (Glob (source job) (search_paths st)) st)
              | Inr paths \<Rightarrow>
                  (if paths \<noteq> [] then
                     (case process_matches env paths job
                             (emit (Glob (source job) (search_paths st)) st) of
                        (r, st1) \<Rightarrow> (r, job, st1))
                   else
                     (None, job, (emit (Glob (source job) (search_paths st)) st)
                                    \<lparr>status := max (status st) 3\<rparr>))))
      else if source_type job = SourceType_console then
        (case get_stdin env st of
           (Inl e, st1) \<Rightarrow> (Some e, job, st1)
         | (Inr data, st1) \<Rightarrow> process_non_path env data job st1)
      else process_non_path env (source job) job st)"

text \<open>
  Lines 363 to 381, the handlers: \<^verbatim>\<open>status_ = 4\<close> for a filesystem error,
  \<^verbatim>\<open>status_ = 1\<close> for \<^verbatim>\<open>Fatal\<close> and for any other \<^verbatim>\<open>std::exception\<close>. They assign;
  they do not take the maximum.
\<close>

definition process :: "env \<Rightarrow> Job \<Rightarrow> BltcApp \<Rightarrow> Job \<times> BltcApp" where
  "process env job st =
     (case process_try env job st of
        (None, job1, st1) \<Rightarrow> (job1, st1)
      | (Some FilesystemError, job1, st1) \<Rightarrow> (job1, st1\<lparr>status := 4\<rparr>)
      | (Some Fatal, job1, st1) \<Rightarrow> (job1, st1\<lparr>status := 1\<rparr>)
      | (Some e, job1, st1) \<Rightarrow> (job1, st1\<lparr>status := 1\<rparr>))"

subsection \<open>\<^verbatim>\<open>operator()\<close>\<close>

text \<open>
  How a \<^verbatim>\<open>try\<close> block ends: it runs to its end, it executes a \<^verbatim>\<open>return\<close>, or an
  exception leaves it.
\<close>

datatype 'a flow = Completed 'a | Returned 'a | Threw exn 'a

text \<open>Lines 234 to 236.\<close>

definition default_search_paths :: "env \<Rightarrow> BltcApp \<Rightarrow> exn + BltcApp" where
  "default_search_paths env st =
     (if search_paths st = [] then
        (case cwd env of
           Inl e \<Rightarrow> Inl e
         | Inr d \<Rightarrow> Inr (st\<lparr>search_paths := [d]\<rparr>))
      else Inr st)"

text \<open>Lines 246 to 248.\<close>

definition ensure_directories :: "env \<Rightarrow> BltcApp \<Rightarrow> exn + BltcApp" where
  "ensure_directories env st =
     (case fs_exists env (trace st) (output_path st) of
        Inl e \<Rightarrow> Inl e
      | Inr True \<Rightarrow> Inr st
      | Inr False \<Rightarrow>
          (case fs_create_directories env (trace st) (output_path st) of
             Some e \<Rightarrow> Inl e
           | None \<Rightarrow> Inr (emit (CreateDirectories (output_path st)) st)))"

text \<open>The first \<^verbatim>\<open>try\<close> block, lines 234 to 260.\<close>

definition configure_paths :: "env \<Rightarrow> BltcApp \<Rightarrow> BltcApp flow" where
  "configure_paths env st =
     (case default_search_paths env st of
        Inl e \<Rightarrow> Threw e st
      | Inr st1 \<Rightarrow>
          (if output_path st1 \<noteq> [] then
             (case fs_absolute env (output_path st1) of
                Inl e \<Rightarrow> Threw e st1
              | Inr ap \<Rightarrow>
                  (case ensure_directories env (st1\<lparr>output_path := ap\<rparr>) of
                     Inl e \<Rightarrow> Threw e (st1\<lparr>output_path := ap\<rparr>)
                   | Inr st2 \<Rightarrow>
                       (case fs_is_directory env (trace st2) (output_path st2) of
                          Inl e \<Rightarrow> Threw e st2
                        | Inr True \<Rightarrow> Completed st2
                        | Inr False \<Rightarrow> Returned (st2\<lparr>status := 5\<rparr>))))
           else Completed st1))"

text \<open>
  Lines 286 to 288. The loop hands every element of \<^verbatim>\<open>jobs_\<close> to \<^verbatim>\<open>process_\<close> by
  reference: the list that comes back holds the jobs as \<^verbatim>\<open>process_\<close> left them.
  \<^verbatim>\<open>process_\<close> catches every exception of \<open>exn\<close>, so the handlers of lines 289 to 300
  have nothing to catch here.
\<close>

fun run_jobs :: "env \<Rightarrow> Job list \<Rightarrow> BltcApp \<Rightarrow> Job list \<times> BltcApp" where
  "run_jobs env [] st = ([], st)"
| "run_jobs env (job # js) st =
     (case process env job st of
        (job1, st1) \<Rightarrow>
          (case run_jobs env js st1 of
             (js1, st2) \<Rightarrow> (job1 # js1, st2)))"

definition process_jobs :: "env \<Rightarrow> BltcApp \<Rightarrow> BltcApp" where
  "process_jobs env st =
     (case run_jobs env (jobs st) st of (js, st1) \<Rightarrow> st1\<lparr>jobs := js\<rparr>)"

text \<open>
  The result is the exit status and the application as the call leaves it. The three
  handlers of the first block all assign \<^verbatim>\<open>status_ = 1\<close>.
\<close>

definition operator_call :: "env \<Rightarrow> BltcApp \<Rightarrow> int \<times> BltcApp" where
  "operator_call env st =
     (if status st \<noteq> 0 then (status st, st)
      else
        (case configure_paths env st of
           Returned st1 \<Rightarrow> (status st1, st1)
         | Threw e st1 \<Rightarrow>
             (case st1\<lparr>status := 1\<rparr> of
                st2 \<Rightarrow>
                  (if status st2 \<noteq> 0 then (status st2, st2)
                   else (status (process_jobs env st2), process_jobs env st2)))
         | Completed st1 \<Rightarrow>
             (if status st1 \<noteq> 0 then (status st1, st1)
              else (status (process_jobs env st1), process_jobs env st1))))"

subsection \<open>The constructor\<close>

text \<open>
  The command line as the option processor hands it to the handlers of lines 67 to 155,
  one value for each call of a handler. \<open>Unparsed\<close> is an argument the processor rejects
  with an \<^verbatim>\<open>ArgumentException\<close>. The verbosity option only changes the log mask.
\<close>

datatype cli_arg =
    OptOutput string
  | FlagStdout
  | FlagDebug
  | OptInput string
  | FlagStdin
  | Positional string
  | OptInputDir string
  | OptOutputDir string
  | OptVerbosity
  | FlagVersion
  | OptHelp string
  | FlagHelpVerbose
  | Unparsed

text \<open>The local variables of the constructor that the handlers capture.\<close>

record cli_locals =
  cur_dest :: string
  cur_dest_type :: DestType
  show_version :: bool
  show_help :: bool
  help_query :: string

definition push_job :: "Job \<Rightarrow> cli_locals \<times> BltcApp \<Rightarrow> cli_locals \<times> BltcApp" where
  "push_job job s =
     (case s of (l, st) \<Rightarrow>
        (l\<lparr>cur_dest := [], cur_dest_type := DestType_path\<rparr>, st\<lparr>jobs := jobs st @ [job]\<rparr>))"

fun handler :: "env \<Rightarrow> cli_arg \<Rightarrow> cli_locals \<times> BltcApp \<Rightarrow> exn + cli_locals \<times> BltcApp" where
  "handler env (OptOutput str) (l, st) =
     Inr (l\<lparr>cur_dest := str, cur_dest_type := DestType_path\<rparr>, st)"
| "handler env FlagStdout (l, st) = Inr (l\<lparr>cur_dest_type := DestType_console\<rparr>, st)"
| "handler env FlagDebug (l, st) = Inr (l, st\<lparr>debug_mode := True\<rparr>)"
| "handler env (OptInput str) (l, st) =
     Inr (push_job
            \<lparr>source = str, dest = cur_dest l, source_type = SourceType_raw,
             dest_type = (if cur_dest l = [] then DestType_console else cur_dest_type l)\<rparr>
            (l, st))"
| "handler env FlagStdin (l, st) =
     Inr (push_job
            \<lparr>source = [], dest = cur_dest l, source_type = SourceType_console,
             dest_type = (if cur_dest l = [] then DestType_console else cur_dest_type l)\<rparr>
            (l, st))"
| "handler env (Positional str) (l, st) =
     Inr (push_job
            \<lparr>source = str, dest = cur_dest l, source_type = SourceType_path,
             dest_type = cur_dest_type l\<rparr>
            (l, st))"
| "handler env (OptInputDir str) (l, st) =
     Inr (l, st\<lparr>search_paths := search_paths st @ parse_multi_path env str\<rparr>)"
| "handler env (OptOutputDir str) (l, st) =
     (if output_path st \<noteq> [] then Inl OptionException
      else Inr (l, st\<lparr>output_path := parse_path env str\<rparr>))"
| "handler env OptVerbosity (l, st) = Inr (l, st)"
| "handler env FlagVersion (l, st) = Inr (l\<lparr>show_version := True\<rparr>, st)"
| "handler env (OptHelp v) (l, st) = Inr (l\<lparr>show_help := True, help_query := v\<rparr>, st)"
| "handler env FlagHelpVerbose (l, st) = Inr (l, st)"
| "handler env Unparsed (l, st) = Inl ArgumentException"

text \<open>
  \<^verbatim>\<open>proc(argc, argv)\<close>: the handlers run in the order of the command line until one
  throws; what the earlier ones did to the members stays.
\<close>

fun proc_run ::
  "env \<Rightarrow> cli_arg list \<Rightarrow> cli_locals \<times> BltcApp \<Rightarrow> exn option \<times> cli_locals \<times> BltcApp" where
  "proc_run env [] s = (None, s)"
| "proc_run env (a # as) s =
     (case handler env a s of
        Inl e \<Rightarrow> (Some e, s)
      | Inr s1 \<Rightarrow> proc_run env as s1)"

definition initial_locals :: cli_locals where
  "initial_locals =
     \<lparr>cur_dest = [], cur_dest_type = DestType_path, show_version = False, show_help = False,
      help_query = []\<rparr>"

definition initial_app :: BltcApp where
  "initial_app =
     \<lparr>debug_mode = False, status = 0, search_paths = [], jobs = [], output_path = [],
      stdin_cache = None, cin_fail = False, trace = []\<rparr>"

text \<open>
  Lines 178 to 198, after the command line has been processed. Line 184 adds the version
  and license lines to the processor when \<^verbatim>\<open>show_version\<close> holds, so the help text
  printed then holds them.
\<close>

definition after_parse :: "cli_locals \<Rightarrow> BltcApp \<Rightarrow> BltcApp" where
  "after_parse l st =
     (case (if \<not> show_help l \<and> \<not> show_version l \<and> jobs st = []
            then (l\<lparr>show_help := True, show_version := True\<rparr>, st\<lparr>status := 1\<rparr>)
            else (l, st)) of
        (l1, st1) \<Rightarrow>
          (if show_help l1 then emit (DescribeHelp (help_query l1) (show_version l1)) st1
           else if show_version l1 then emit DescribeVersion st1
           else st1))"

text \<open>All four handlers of the constructor assign \<^verbatim>\<open>status_ = 2\<close>.\<close>

definition BltcApp_ctor :: "env \<Rightarrow> cli_arg list \<Rightarrow> BltcApp" where
  "BltcApp_ctor env args =
     (case proc_run env args (initial_locals, initial_app) of
        (Some e, l, st) \<Rightarrow> st\<lparr>status := 2\<rparr>
      | (None, l, st) \<Rightarrow> after_parse l st)"

text \<open>A whole run: the application is constructed from the command line, then called.\<close>

definition run :: "env \<Rightarrow> cli_arg list \<Rightarrow> int \<times> BltcApp" where
  "run env args = operator_call env (BltcApp_ctor env args)"

subsection \<open>Reading a trace\<close>

definition load_of :: "event \<Rightarrow> path list" where
  "load_of e = (case e of GetFileContents p \<Rightarrow> [p] | _ \<Rightarrow> [])"

definition open_of :: "event \<Rightarrow> string list" where
  "open_of e = (case e of OfsOpen d \<Rightarrow> [d] | _ \<Rightarrow> [])"

definition glob_of :: "event \<Rightarrow> string list" where
  "glob_of e = (case e of Glob pat dirs \<Rightarrow> [pat] | _ \<Rightarrow> [])"

definition blt_of :: "event \<Rightarrow> (string \<times> sink) list" where
  "blt_of e =
     (case e of CompileBlt d os \<Rightarrow> [(d, os)] | DebugBlt d os \<Rightarrow> [(d, os)] | _ \<Rightarrow> [])"

definition loaded :: "event list \<Rightarrow> path list" where
  \<comment> \<open>the files \<^verbatim>\<open>process_path_\<close> was asked to load, in order\<close>
  "loaded es = concat (map load_of es)"

definition opened :: "event list \<Rightarrow> string list" where
  \<comment> \<open>the output files \<^verbatim>\<open>process_raw_\<close> tried to open, in order\<close>
  "opened es = concat (map open_of es)"

definition globbed :: "event list \<Rightarrow> string list" where
  \<comment> \<open>the patterns handed to \<^verbatim>\<open>util::glob\<close>\<close>
  "globbed es = concat (map glob_of es)"

definition transformed :: "event list \<Rightarrow> (string \<times> sink) list" where
  \<comment> \<open>the calls of \<^verbatim>\<open>compile_blt\<close> and \<^verbatim>\<open>debug_blt\<close>\<close>
  "transformed es = concat (map blt_of es)"

subsection \<open>An environment to evaluate in\<close>

text \<open>
  A small fixed world with POSIX paths, for evaluating the functions above on concrete
  command lines: the files with their contents, the directories, the paths whose status
  cannot be read (a parent directory denies search permission, so that \<^verbatim>\<open>fs::exists\<close>
  throws), what each glob pattern matches, the directories that cannot be created, the
  paths that cannot be opened for writing, the templates the compiler rejects, and the
  contents of standard input.
\<close>

record world =
  files :: "(path \<times> string) list"
  dirs :: "path list"
  inaccessible :: "path list"
  matches :: "(string \<times> path list) list"
  uncreatable :: "path list"
  unwritable :: "path list"
  rejected :: "string list"
  stdin :: string

definition mkdir_of :: "event \<Rightarrow> path list" where
  "mkdir_of e = (case e of CreateDirectories p \<Rightarrow> [p] | _ \<Rightarrow> [])"

definition posix_is_absolute :: "path \<Rightarrow> bool" where
  "posix_is_absolute p = (case p of [] \<Rightarrow> False | c # cs \<Rightarrow> c = CHR ''/'')"

definition posix_append :: "path \<Rightarrow> path \<Rightarrow> path" where
  "posix_append p q =
     (if posix_is_absolute q then q
      else if p = [] then q
      else if last p = CHR ''/'' then p @ q
      else p @ ''/'' @ q)"

definition posix_stem :: "string \<Rightarrow> string" where
  "posix_stem f =
     (case dropWhile (\<lambda>c. c \<noteq> CHR ''.'') (rev f) of
        [] \<Rightarrow> f
      | dot # r \<Rightarrow> (if r = [] then f else if f = ''..'' then f else rev r))"

definition posix_replace_extension :: "path \<Rightarrow> string \<Rightarrow> path" where
  "posix_replace_extension p ext =
     rev (dropWhile (\<lambda>c. c \<noteq> CHR ''/'') (rev p))
     @ posix_stem (rev (takeWhile (\<lambda>c. c \<noteq> CHR ''/'') (rev p)))
     @ (case ext of [] \<Rightarrow> [] | c # cs \<Rightarrow> (if c = CHR ''.'' then ext else ''.'' @ ext))"

definition posix_env :: "world \<Rightarrow> env" where
  "posix_env w =
     \<lparr>parse_path = (\<lambda>s. s),
      parse_multi_path = (\<lambda>s. [s]),
      is_absolute = posix_is_absolute,
      path_append = posix_append,
      replace_extension = posix_replace_extension,
      cwd = Inr ''/work'',
      fs_absolute = (\<lambda>p. Inr (posix_append ''/work'' p)),
      fs_exists =
        (\<lambda>h p. if p \<in> set (inaccessible w) then Inl FilesystemError
                else Inr (p \<in> set (map fst (files w) @ dirs w @ concat (map mkdir_of h)))),
      fs_create_directories =
        (\<lambda>h p. if p \<in> set (uncreatable w) then Some FilesystemError else None),
      fs_is_directory = (\<lambda>h p. Inr (p \<in> set (dirs w @ concat (map mkdir_of h)))),
      glob = (\<lambda>h pat sp. Inr (case map_of (matches w) pat of None \<Rightarrow> [] | Some ps \<Rightarrow> ps)),
      get_file_contents_string =
        (\<lambda>h p. case map_of (files w) p of None \<Rightarrow> Inl FilesystemError | Some d \<Rightarrow> Inr d),
      ofs_open = (\<lambda>h d. if d \<in> set (unwritable w) then OpenFailed else OpenGood),
      cout_good = (\<lambda>h. True),
      blt = (\<lambda>h debug d os. if d \<in> set (rejected w) then BltRecoverable else BltOk),
      cin_rdbuf = (\<lambda>h. stdin w)\<rparr>"

definition example_world :: world where
  "example_world =
     \<lparr>files = [(''/src/foo.blt'', ''hello''), (''/work/a.blt'', ''A''), (''/work/b.blt'', ''B'')],
      dirs = [''/tmp'', ''/src'', ''/work''],
      inaccessible = [''/locked/x.blt''],
      matches = [(''*.blt'', [''/work/a.blt'', ''/work/b.blt''])],
      uncreatable = [''/proc/out''],
      unwritable = [''/nodir/out.lua''],
      rejected = [''bad template''],
      stdin = ''from stdin''\<rparr>"

definition example_env :: env where
  "example_env = posix_env example_world"

section \<open>Properties\<close>

subsection \<open>Traces\<close>

lemma loaded_append [simp]: "loaded (xs @ ys) = loaded xs @ loaded ys"
  by (simp add: loaded_def)

lemma opened_append [simp]: "opened (xs @ ys) = opened xs @ opened ys"
  by (simp add: opened_def)

lemma globbed_append [simp]: "globbed (xs @ ys) = globbed xs @ globbed ys"
  by (simp add: globbed_def)

lemma transformed_append [simp]: "transformed (xs @ ys) = transformed xs @ transformed ys"
  by (simp add: transformed_def)

lemma trace_reader_simps [simp]:
  "loaded [] = []" "loaded (e # es) = load_of e @ loaded es"
  "opened [] = []" "opened (e # es) = open_of e @ opened es"
  "globbed [] = []" "globbed (e # es) = glob_of e @ globbed es"
  "transformed [] = []" "transformed (e # es) = blt_of e @ transformed es"
  by (simp_all add: loaded_def opened_def globbed_def transformed_def)

subsection \<open>What the member functions leave alone\<close>

lemma open_output_frame:
  "output_path (snd (open_output env job st)) = output_path st"
  "search_paths (snd (open_output env job st)) = search_paths st"
  "debug_mode (snd (open_output env job st)) = debug_mode st"
  "jobs (snd (open_output env job st)) = jobs st"
  "stdin_cache (snd (open_output env job st)) = stdin_cache st"
  "loaded (trace (snd (open_output env job st))) = loaded (trace st)"
  "globbed (trace (snd (open_output env job st))) = globbed (trace st)"
  "opened (trace (snd (open_output env job st))) =
     opened (trace st) @ (if dest_type job = DestType_path then [dest job] else [])"
  by (simp_all add: open_output_def emit_def load_of_def open_of_def glob_of_def
        split: open_result.splits)

lemma process_raw_frame:
  "output_path (snd (process_raw env d job st)) = output_path st"
  "search_paths (snd (process_raw env d job st)) = search_paths st"
  "debug_mode (snd (process_raw env d job st)) = debug_mode st"
  "jobs (snd (process_raw env d job st)) = jobs st"
  "stdin_cache (snd (process_raw env d job st)) = stdin_cache st"
  "loaded (trace (snd (process_raw env d job st))) = loaded (trace st)"
  "globbed (trace (snd (process_raw env d job st))) = globbed (trace st)"
  "opened (trace (snd (process_raw env d job st))) =
     opened (trace st) @ (if dest_type job = DestType_path then [dest job] else [])"
  using open_output_frame [of env job st]
  by (auto simp add: process_raw_def emit_def blt_event_def load_of_def open_of_def glob_of_def
        split: prod.splits option.splits blt_result.splits)

lemma process_raw_no_throw:
  assumes "\<And>h debug d os e. blt env h debug d os \<noteq> BltThrew e"
  shows "fst (process_raw env d job st) = None"
  using assms
  by (auto simp add: process_raw_def split: prod.splits option.splits blt_result.splits)

lemma process_path_job:
  "fst (snd (process_path env p job st)) = plan_path_dest env (output_path st) p job"
  by (simp add: process_path_def Let_def split: sum.splits prod.splits)

lemma process_path_alt:
  "process_path env p job st =
     (case get_file_contents_string env (trace st) p of
        Inl e \<Rightarrow> (None, plan_path_dest env (output_path st) p job,
                  (emit (GetFileContents p) st)\<lparr>status := max (status st) 4\<rparr>)
      | Inr d \<Rightarrow>
          (fst (process_raw env d (plan_path_dest env (output_path st) p job)
                  (emit (GetFileContents p) st)),
           plan_path_dest env (output_path st) p job,
           snd (process_raw env d (plan_path_dest env (output_path st) p job)
                  (emit (GetFileContents p) st))))"
  by (simp add: process_path_def Let_def split: sum.splits prod.splits)

lemma process_path_frame:
  "output_path (snd (snd (process_path env p job st))) = output_path st"
  "search_paths (snd (snd (process_path env p job st))) = search_paths st"
  "debug_mode (snd (snd (process_path env p job st))) = debug_mode st"
  "jobs (snd (snd (process_path env p job st))) = jobs st"
  "loaded (trace (snd (snd (process_path env p job st)))) = loaded (trace st) @ [p]"
  "globbed (trace (snd (snd (process_path env p job st)))) = globbed (trace st)"
  by (simp_all add: process_path_alt process_raw_frame emit_def
        load_of_def glob_of_def split: sum.splits)

lemma plan_path_dest_type:
  "dest_type (plan_path_dest env out p job) = dest_type job"
  by (simp add: plan_path_dest_def)

lemma process_path_opened:
  "opened (trace (snd (snd (process_path env p job st)))) =
     opened (trace st) @
       (if \<not> isl (get_file_contents_string env (trace st) p) \<and> dest_type job = DestType_path
        then [dest (plan_path_dest env (output_path st) p job)] else [])"
  by (simp add: process_path_alt process_raw_frame plan_path_dest_type emit_def
        open_of_def split: sum.splits)

lemma process_path_no_throw:
  assumes "\<And>h debug d os e. blt env h debug d os \<noteq> BltThrew e"
  shows "fst (process_path env p job st) = None"
  by (simp add: process_path_alt process_raw_no_throw [OF assms] split: sum.splits)

lemma process_matches_frame:
  assumes "\<And>h debug d os e. blt env h debug d os \<noteq> BltThrew e"
  shows "fst (process_matches env ps job st) = None
       \<and> output_path (snd (process_matches env ps job st)) = output_path st
       \<and> loaded (trace (snd (process_matches env ps job st))) = loaded (trace st) @ ps
       \<and> globbed (trace (snd (process_matches env ps job st))) = globbed (trace st)"
proof (induction ps arbitrary: st)
  case Nil
  show ?case by simp
next
  case (Cons p ps)
  obtain r c st1 where step: "process_path env p job st = (r, c, st1)"
    by (cases "process_path env p job st") auto
  have r: "r = None"
    using process_path_no_throw [OF assms, of p job st] step by simp
  have f: "output_path st1 = output_path st" "loaded (trace st1) = loaded (trace st) @ [p]"
    "globbed (trace st1) = globbed (trace st)"
    using process_path_frame [of env p job st] step by simp_all
  show ?case
    using Cons.IH [of st1] step r f by simp
qed

lemma process_matches_opened:
  assumes "\<And>h debug d os e. blt env h debug d os \<noteq> BltThrew e"
    and "dest_type job = DestType_path"
    and "\<And>h p. p \<in> set ps \<Longrightarrow> \<not> isl (get_file_contents_string env h p)"
  shows "opened (trace (snd (process_matches env ps job st))) =
           opened (trace st) @ map (\<lambda>p. dest (plan_path_dest env (output_path st) p job)) ps"
  using assms(3)
proof (induction ps arbitrary: st)
  case Nil
  show ?case by simp
next
  case (Cons p ps)
  obtain r c st1 where step: "process_path env p job st = (r, c, st1)"
    by (cases "process_path env p job st") auto
  have r: "r = None"
    using process_path_no_throw [OF assms(1), of p job st] step by simp
  have out: "output_path st1 = output_path st"
    using process_path_frame(1) [of env p job st] step by simp
  have rd: "\<not> isl (get_file_contents_string env (trace st) p)"
    using Cons.prems [of p] by simp
  have op: "opened (trace st1) =
              opened (trace st) @ [dest (plan_path_dest env (output_path st) p job)]"
    using process_path_opened [of env p job st] step rd assms(2) by simp
  have "opened (trace (snd (process_matches env ps job st1))) =
          opened (trace st1) @ map (\<lambda>p. dest (plan_path_dest env (output_path st1) p job)) ps"
    using Cons.IH [of st1] Cons.prems by simp
  then show ?case
    using step r out op by simp
qed

lemma process_raw_search_paths:
  "process_raw env d job (st\<lparr>search_paths := sp\<rparr>) =
     (fst (process_raw env d job st), (snd (process_raw env d job st))\<lparr>search_paths := sp\<rparr>)"
  by (simp add: process_raw_def open_output_def emit_def
        split: open_result.splits blt_result.splits)

lemma process_path_search_paths:
  "process_path env p job (st\<lparr>search_paths := sp\<rparr>) =
     (fst (process_path env p job st), fst (snd (process_path env p job st)),
      (snd (snd (process_path env p job st)))\<lparr>search_paths := sp\<rparr>)"
proof -
  have e: "emit (GetFileContents p) (st\<lparr>search_paths := sp\<rparr>) =
             (emit (GetFileContents p) st)\<lparr>search_paths := sp\<rparr>"
    by (simp add: emit_def)
  show ?thesis
    by (simp add: process_path_alt e process_raw_search_paths split: sum.splits)
qed

lemma handled_frame:
  "fst (process env job st) = fst (snd (process_try env job st))"
  "loaded (trace (snd (process env job st))) = loaded (trace (snd (snd (process_try env job st))))"
  "globbed (trace (snd (process env job st))) = globbed (trace (snd (snd (process_try env job st))))"
  "opened (trace (snd (process env job st))) = opened (trace (snd (snd (process_try env job st))))"
  by (simp_all add: process_def split: prod.splits option.splits exn.splits)

lemma process_non_path_job:
  "fst (snd (process_non_path env d job st)) = plan_non_path_dest env (output_path st) job"
  by (simp add: process_non_path_def Let_def split: prod.splits)

lemma get_stdin_output_path:
  "output_path (snd (get_stdin env st)) = output_path st"
  by (simp add: get_stdin_def emit_def split: option.splits sum.splits)

lemma process_try_job:
  "fst (snd (process_try env job st)) =
     (if source_type job = SourceType_path then
        (if absolute_and_exists env (parse_path env (source job)) st = Inr True
         then plan_path_dest env (output_path st) (parse_path env (source job)) job
         else job)
      else if source_type job = SourceType_console \<and> isl (fst (get_stdin env st)) then job
      else plan_non_path_dest env (output_path st) job)"
proof (cases "source_type job")
  case SourceType_path
  then show ?thesis
    by (simp add: process_try_def process_path_job split: sum.splits bool.splits prod.splits)
next
  case SourceType_raw
  then show ?thesis
    by (simp add: process_try_def process_non_path_job)
next
  case SourceType_console
  obtain r s where g: "get_stdin env st = (r, s)" by (cases "get_stdin env st")
  have o: "output_path s = output_path st"
    using get_stdin_output_path [of env st] g by simp
  show ?thesis
    using SourceType_console g o
    by (cases r) (simp_all add: process_try_def process_non_path_job)
qed

lemma handler_frame:
  assumes "handler env a (l, st) = Inr (l', st')"
  shows "trace st' = trace st" "status st' = status st"
    "take (length (jobs st)) (jobs st') = jobs st"
  using assms by (cases a; auto simp add: push_job_def split: if_splits)+

lemma proc_run_frame:
  assumes "proc_run env as (l, st) = (r, l', st')"
  shows "trace st' = trace st \<and> status st' = status st
       \<and> take (length (jobs st)) (jobs st') = jobs st"
  using assms
proof (induction as arbitrary: l st)
  case Nil
  then show ?case by simp
next
  case (Cons a as)
  show ?case
  proof (cases "handler env a (l, st)")
    case (Inl e)
    then show ?thesis using Cons.prems by simp
  next
    case (Inr s1)
    obtain l1 st1 where s1: "s1 = (l1, st1)" by (cases s1)
    have h: "handler env a (l, st) = Inr (l1, st1)" using Inr s1 by simp
    have r: "proc_run env as (l1, st1) = (r, l', st')" using Cons.prems h by simp
    have i: "trace st' = trace st1 \<and> status st' = status st1
       \<and> take (length (jobs st1)) (jobs st') = jobs st1"
      by (rule Cons.IH [OF r])
    have "length (take (length (jobs st)) (jobs st1)) = length (jobs st)"
      using handler_frame(3) [OF h] by simp
    then have le: "length (jobs st) \<le> length (jobs st1)"
      by simp
    have "take (length (jobs st)) (jobs st') = take (length (jobs st)) (take (length (jobs st1)) (jobs st'))"
      using le by (simp add: min.absorb1)
    then have "take (length (jobs st)) (jobs st') = jobs st"
      using i handler_frame(3) [OF h] by simp
    then show ?thesis using i handler_frame(1,2) [OF h] by simp
  qed
qed

lemma default_search_paths_frame:
  assumes "default_search_paths env st = Inr st1"
  shows "trace st1 = trace st" "status st1 = status st" "jobs st1 = jobs st"
    "output_path st1 = output_path st"
  using assms by (auto simp add: default_search_paths_def split: if_splits sum.splits)

subsection \<open>The status\<close>
























lemma filesystem_error_assigns_4:
  assumes "fst (process_try env job st) = Some FilesystemError"
  shows "status (snd (process env job st)) = 4"
  using assms by (auto simp add: process_def split: prod.splits)

text \<open>
  Claim C1: the run status never decreases, and the exit status is the maximum severity
  raised during setup and all jobs. \<^verbatim>\<open>process_path_\<close>, \<^verbatim>\<open>process_raw_\<close> and the job loop
  of \<^verbatim>\<open>operator()\<close> raise the status with \<^verbatim>\<open>std::max\<close>, but the three handlers of
  \<^verbatim>\<open>process_\<close> assign it. In the run below the first job, a template the compiler rejects,
  raises the status to 6; the second job names an absolute path under a directory that
  denies search permission, \<^verbatim>\<open>fs::exists\<close> throws a filesystem error at line 315, and the
  handler at line 364 sets the status to 4, which is the exit status.
\<close>

theorem handler_assignment_lowers_status:
  "fs_exists example_env [] ''/locked/x.blt'' = Inl FilesystemError
   \<and> status (snd (process example_env
      \<lparr>source = ''bad template'', dest = [], source_type = SourceType_raw,
       dest_type = DestType_console\<rparr> initial_app)) = 6
   \<and> status (snd (process example_env
      \<lparr>source = ''/locked/x.blt'', dest = [], source_type = SourceType_path,
       dest_type = DestType_path\<rparr>
      (snd (process example_env
         \<lparr>source = ''bad template'', dest = [], source_type = SourceType_raw,
          dest_type = DestType_console\<rparr> initial_app)))) = 4
   \<and> fst (run example_env [OptInput ''bad template'', Positional ''/locked/x.blt'']) = 4"
  by code_simp

subsection \<open>The stored jobs\<close>

text \<open>
  Claim C2, as stated: the \<open>dest\<close> and \<open>dest_type\<close> of a job are fixed when the job is
  created, and planning the destination never changes the stored job. The second half fails:
  \<^verbatim>\<open>process_path_\<close> and \<^verbatim>\<open>process_non_path_\<close> write the planned destination into the
  job they are given by reference, and only the loop over the matches of a glob hands them
  a copy. Below, the stored job of an absolute input path has an empty \<open>dest\<close> before the
  run and the planned path after it.
\<close>

theorem stored_job_rewritten:
  "jobs (snd (run example_env [Positional ''/src/foo.blt'']))
     \<noteq> jobs (BltcApp_ctor example_env [Positional ''/src/foo.blt''])"
  by code_simp

text \<open>
  Claim C2, amended: the \<open>dest\<close> and \<open>dest_type\<close> of a job are captured by value when
  the job is created, and no later command-line handler changes a job already in the list.
  When the job is processed, a path job that is not an existing absolute path (it goes
  through the glob, where every match is planned on a copy) leaves the stored job as it
  was; a path job that is an existing absolute path, and a raw or console job, are planned
  in place: the stored job becomes what lines 387 to 407, or 444 to 455, make of it.
\<close>

theorem job_planned_on_copy_or_in_place:
  "(proc_run env as (l, st) = (r, l', st') \<longrightarrow> take (length (jobs st)) (jobs st') = jobs st)
   \<and> (source_type job = SourceType_path
        \<and> absolute_and_exists env (parse_path env (source job)) st \<noteq> Inr True
        \<longrightarrow> fst (process env job st) = job)
   \<and> (source_type job = SourceType_path
        \<and> absolute_and_exists env (parse_path env (source job)) st = Inr True
        \<longrightarrow> fst (process env job st) =
              plan_path_dest env (output_path st) (parse_path env (source job)) job)
   \<and> (source_type job = SourceType_raw
        \<longrightarrow> fst (process env job st) = plan_non_path_dest env (output_path st) job)
   \<and> (source_type job = SourceType_console \<and> \<not> isl (fst (get_stdin env st))
        \<longrightarrow> fst (process env job st) = plan_non_path_dest env (output_path st) job)"
  using proc_run_frame [of env as l st r l' st']
  by (simp add: handled_frame process_try_job)

theorem job_planned_on_copy_or_in_place_witness:
  "fst (process example_env
      \<lparr>source = ''*.blt'', dest = [], source_type = SourceType_path, dest_type = DestType_path\<rparr>
      (initial_app\<lparr>search_paths := [''/work'']\<rparr>))
     = \<lparr>source = ''*.blt'', dest = [], source_type = SourceType_path, dest_type = DestType_path\<rparr>
   \<and> fst (process example_env
      \<lparr>source = ''/src/foo.blt'', dest = [], source_type = SourceType_path,
       dest_type = DestType_path\<rparr> initial_app)
     = \<lparr>source = ''/src/foo.blt'', dest = ''/src/foo.lua'', source_type = SourceType_path,
        dest_type = DestType_path\<rparr>
   \<and> fst (process example_env
      \<lparr>source = ''x'', dest = ''out.lua'', source_type = SourceType_raw,
       dest_type = DestType_path\<rparr> (initial_app\<lparr>output_path := ''/work/out''\<rparr>))
     = \<lparr>source = ''x'', dest = ''/work/out/out.lua'', source_type = SourceType_raw,
        dest_type = DestType_path\<rparr>
   \<and> take 1 (jobs (BltcApp_ctor example_env
                     [OptOutput ''a'', Positional ''x.blt'', OptOutput ''b'', FlagStdout,
                      Positional ''y.blt'']))
     = jobs (BltcApp_ctor example_env [OptOutput ''a'', Positional ''x.blt''])"
proof -
  let ?g = "\<lparr>source = ''*.blt'', dest = [], source_type = SourceType_path,
             dest_type = DestType_path\<rparr>"
  let ?gs = "initial_app\<lparr>search_paths := [''/work'']\<rparr>"
  let ?f = "\<lparr>source = ''/src/foo.blt'', dest = [], source_type = SourceType_path,
             dest_type = DestType_path\<rparr>"
  let ?x = "\<lparr>source = ''x'', dest = ''out.lua'', source_type = SourceType_raw,
             dest_type = DestType_path\<rparr>"
  let ?xs = "initial_app\<lparr>output_path := ''/work/out''\<rparr>"
  have g: "source_type ?g = SourceType_path
           \<and> absolute_and_exists example_env (parse_path example_env (source ?g)) ?gs \<noteq> Inr True"
    by (simp add: absolute_and_exists_def example_env_def posix_env_def posix_is_absolute_def)
  have f: "source_type ?f = SourceType_path
           \<and> absolute_and_exists example_env (parse_path example_env (source ?f)) initial_app
               = Inr True"
    by (simp add: absolute_and_exists_def example_env_def posix_env_def posix_is_absolute_def
          example_world_def)
  have x: "source_type ?x = SourceType_raw" by simp
  have pf: "plan_path_dest example_env (output_path initial_app)
              (parse_path example_env (source ?f)) ?f
            = \<lparr>source = ''/src/foo.blt'', dest = ''/src/foo.lua'', source_type = SourceType_path,
               dest_type = DestType_path\<rparr>"
    by (simp add: plan_path_dest_def example_env_def posix_env_def initial_app_def
          posix_replace_extension_def posix_stem_def)
  have px: "plan_non_path_dest example_env (output_path ?xs) ?x
            = \<lparr>source = ''x'', dest = ''/work/out/out.lua'', source_type = SourceType_raw,
               dest_type = DestType_path\<rparr>"
    by (simp add: plan_non_path_dest_def example_env_def posix_env_def
          posix_append_def posix_is_absolute_def)
  have c1: "fst (process example_env ?g ?gs) = ?g"
    using job_planned_on_copy_or_in_place
            [where env = example_env and job = ?g and st = ?gs,
             THEN conjunct2, THEN conjunct1] g
    by blast
  have c2: "fst (process example_env ?f initial_app)
            = \<lparr>source = ''/src/foo.blt'', dest = ''/src/foo.lua'', source_type = SourceType_path,
               dest_type = DestType_path\<rparr>"
    using job_planned_on_copy_or_in_place
            [where env = example_env and job = ?f and st = initial_app,
             THEN conjunct2, THEN conjunct2, THEN conjunct1] f pf
    by simp
  have c3: "fst (process example_env ?x ?xs)
            = \<lparr>source = ''x'', dest = ''/work/out/out.lua'', source_type = SourceType_raw,
               dest_type = DestType_path\<rparr>"
    using job_planned_on_copy_or_in_place
            [where env = example_env and job = ?x and st = ?xs,
             THEN conjunct2, THEN conjunct2, THEN conjunct2, THEN conjunct1] x px
    by simp
  let ?ja = "\<lparr>source = ''x.blt'', dest = ''a'', source_type = SourceType_path,
              dest_type = DestType_path\<rparr>"
  let ?jb = "\<lparr>source = ''y.blt'', dest = ''b'', source_type = SourceType_path,
              dest_type = DestType_console\<rparr>"
  have p: "proc_run example_env [OptOutput ''b'', FlagStdout, Positional ''y.blt'']
             (initial_locals, initial_app\<lparr>jobs := [?ja]\<rparr>)
           = (None, initial_locals, initial_app\<lparr>jobs := [?ja, ?jb]\<rparr>)"
    by (simp add: push_job_def initial_locals_def initial_app_def)
  have k: "take (length (jobs (initial_app\<lparr>jobs := [?ja]\<rparr>)))
             (jobs (initial_app\<lparr>jobs := [?ja, ?jb]\<rparr>)) = jobs (initial_app\<lparr>jobs := [?ja]\<rparr>)"
    using job_planned_on_copy_or_in_place
            [where env = example_env and st = "initial_app\<lparr>jobs := [?ja]\<rparr>"
               and l = initial_locals and as = "[OptOutput ''b'', FlagStdout, Positional ''y.blt'']"
               and r = None and l' = initial_locals
               and st' = "initial_app\<lparr>jobs := [?ja, ?jb]\<rparr>",
             THEN conjunct1] p
    by blast
  have a1: "jobs (BltcApp_ctor example_env [OptOutput ''a'', Positional ''x.blt'']) = [?ja]"
    by (simp add: BltcApp_ctor_def after_parse_def push_job_def initial_locals_def
          initial_app_def emit_def)
  have a2: "jobs (BltcApp_ctor example_env
                    [OptOutput ''a'', Positional ''x.blt'', OptOutput ''b'', FlagStdout,
                     Positional ''y.blt'']) = [?ja, ?jb]"
    by (simp add: BltcApp_ctor_def after_parse_def push_job_def initial_locals_def
          initial_app_def emit_def)
  have c4: "take 1 (jobs (BltcApp_ctor example_env
                     [OptOutput ''a'', Positional ''x.blt'', OptOutput ''b'', FlagStdout,
                      Positional ''y.blt'']))
            = jobs (BltcApp_ctor example_env [OptOutput ''a'', Positional ''x.blt''])"
    using k a1 a2 by simp
  show ?thesis using c1 c2 c3 c4 by simp
qed

subsection \<open>Opening the output file\<close>

lemma open_failed_returns_silently:
  assumes "dest_type job = DestType_path"
    and "ofs_open env (trace st) (dest job) = OpenFailed"
  shows "process_raw env d job st = (None, emit (OfsOpen (dest job)) st)"
  using assms by (simp add: process_raw_def open_output_def)

lemma open_threw_raises_write_error:
  assumes "dest_type job = DestType_path"
    and "ofs_open env (trace st) (dest job) = OpenThrew e"
  shows "process_raw env d job st =
           (None, (emit (OfsOpen (dest job)) st)\<lparr>status := max (status st) 5\<rparr>)"
  using assms by (simp add: process_raw_def open_output_def)

text \<open>
  Claim C3: when the output file of a work item cannot be opened, the status is raised
  to 5, the item is aborted and the transform is not invoked. The last two hold. The status
  is raised only by the handlers around \<^verbatim>\<open>ofs.open\<close>, and a stream with an empty exception
  mask does not throw when the open fails: it is left in a failed state, which line 500
  tests to return, with the status as it was. The run below exits with status 0 after the
  only thing it did was the failed open.
\<close>

theorem failed_open_leaves_status:
  "ofs_open example_env [] ''/nodir/out.lua'' = OpenFailed
   \<and> fst (run example_env [OptOutput ''/nodir/out.lua'', OptInput ''x'']) = 0
   \<and> trace (snd (run example_env [OptOutput ''/nodir/out.lua'', OptInput ''x'']))
       = [OfsOpen ''/nodir/out.lua'']"
  by code_simp

subsection \<open>Resolving an input path\<close>

lemma process_fast_path:
  assumes "source_type job = SourceType_path"
    and "absolute_and_exists env (parse_path env (source job)) st = Inr True"
  shows "process_try env job st = process_path env (parse_path env (source job)) job st"
  using assms by (simp add: process_try_def)

text \<open>
  Claim C4: an input token that is an absolute path to something that exists resolves to
  exactly that path, whatever the search directories are. \<^verbatim>\<open>process_\<close> then loads that
  one path and no other, never calls the glob, and does the same for any other list of
  search directories.
\<close>

theorem absolute_existing_path_is_the_match:
  assumes "source_type job = SourceType_path"
    and "is_absolute env (parse_path env (source job))"
    and "fs_exists env (trace st) (parse_path env (source job)) = Inr True"
  shows "loaded (trace (snd (process env job st))) = loaded (trace st) @ [parse_path env (source job)]
       \<and> globbed (trace (snd (process env job st))) = globbed (trace st)
       \<and> process env job (st\<lparr>search_paths := sp\<rparr>) =
           (fst (process env job st), (snd (process env job st))\<lparr>search_paths := sp\<rparr>)"
proof -
  let ?p = "parse_path env (source job)"
  have a: "absolute_and_exists env ?p st = Inr True"
    using assms(2,3) by (simp add: absolute_and_exists_def)
  have a': "absolute_and_exists env ?p (st\<lparr>search_paths := sp\<rparr>) = Inr True"
    using assms(2,3) by (simp add: absolute_and_exists_def)
  have t: "process_try env job st = process_path env ?p job st"
    by (rule process_fast_path [OF assms(1) a])
  have t': "process_try env job (st\<lparr>search_paths := sp\<rparr>) =
              process_path env ?p job (st\<lparr>search_paths := sp\<rparr>)"
    using process_fast_path [of job env "st\<lparr>search_paths := sp\<rparr>"] assms(1) a' by simp
  have l: "loaded (trace (snd (process env job st))) = loaded (trace st) @ [?p]"
    by (simp add: handled_frame t process_path_frame)
  have g: "globbed (trace (snd (process env job st))) = globbed (trace st)"
    by (simp add: handled_frame t process_path_frame)
  have s: "process env job (st\<lparr>search_paths := sp\<rparr>) =
             (fst (process env job st), (snd (process env job st))\<lparr>search_paths := sp\<rparr>)"
    by (simp add: process_def t t' process_path_search_paths
          split: prod.splits option.splits exn.splits)
  show ?thesis using l g s by simp
qed

theorem absolute_existing_path_is_the_match_witness:
  "loaded (trace (snd (process example_env
      \<lparr>source = ''/src/foo.blt'', dest = [], source_type = SourceType_path,
       dest_type = DestType_path\<rparr> initial_app))) = [''/src/foo.blt'']
   \<and> globbed (trace (snd (process example_env
      \<lparr>source = ''/src/foo.blt'', dest = [], source_type = SourceType_path,
       dest_type = DestType_path\<rparr> initial_app))) = []"
proof -
  let ?job = "\<lparr>source = ''/src/foo.blt'', dest = [], source_type = SourceType_path,
       dest_type = DestType_path\<rparr>"
  have h1: "source_type ?job = SourceType_path" by simp
  have h2: "is_absolute example_env (parse_path example_env (source ?job))"
    by (simp add: example_env_def posix_env_def posix_is_absolute_def)
  have h3: "fs_exists example_env (trace initial_app) (parse_path example_env (source ?job)) = Inr True"
    by (simp add: example_env_def posix_env_def example_world_def)
  note t = absolute_existing_path_is_the_match [OF h1 h2 h3, of "[]"]
  have c1: "loaded (trace (snd (process example_env ?job initial_app))) = [''/src/foo.blt'']"
    using t [THEN conjunct1] by (simp add: example_env_def posix_env_def initial_app_def)
  have c2: "globbed (trace (snd (process example_env ?job initial_app))) = []"
    using t [THEN conjunct2, THEN conjunct1] by (simp add: initial_app_def)
  show ?thesis using c1 c2 by simp
qed

text \<open>
  Claim C5: path resolution never yields a directory. The glob is asked for
  \<^verbatim>\<open>files_and_misc\<close>, but line 315 tests only \<^verbatim>\<open>fs::exists\<close>, which holds for a
  directory: an absolute path to an existing directory goes to \<^verbatim>\<open>process_path_\<close> as the
  file to load, and the glob is not called. The help text of the program gives exit status
  3 to an input that is a directory; the run below, whose read of the directory fails, exits
  with 4.
\<close>

theorem absolute_directory_is_loaded:
  "fs_is_directory example_env [] ''/tmp'' = Inr True
   \<and> loaded (trace (snd (run example_env [Positional ''/tmp'']))) = [''/tmp'']
   \<and> globbed (trace (snd (run example_env [Positional ''/tmp'']))) = []
   \<and> fst (run example_env [Positional ''/tmp'']) = 4"
  by code_simp

subsection \<open>A pattern that matches nothing\<close>

lemma no_match:
  assumes "source_type job = SourceType_path"
    and "absolute_and_exists env (parse_path env (source job)) st = Inr False"
    and "glob env (trace st) (source job) (search_paths st) = Inr []"
  shows "process env job st =
           (job, (emit (Glob (source job) (search_paths st)) st)\<lparr>status := max (status st) 3\<rparr>)"
  using assms by (simp add: process_def process_try_def)

lemma no_match_continues:
  assumes "source_type job = SourceType_path"
    and "absolute_and_exists env (parse_path env (source job)) st = Inr False"
    and "glob env (trace st) (source job) (search_paths st) = Inr []"
  shows "run_jobs env (job # js) st =
           (job # fst (run_jobs env js
                         ((emit (Glob (source job) (search_paths st)) st)
                            \<lparr>status := max (status st) 3\<rparr>)),
            snd (run_jobs env js
                   ((emit (Glob (source job) (search_paths st)) st)
                      \<lparr>status := max (status st) 3\<rparr>)))"
  by (simp add: no_match [OF assms] split: prod.splits)



subsection \<open>A pattern with several matches\<close>

lemma process_glob_branch:
  assumes "source_type job = SourceType_path"
    and "absolute_and_exists env (parse_path env (source job)) st = Inr False"
    and "glob env (trace st) (source job) (search_paths st) = Inr ps"
    and "ps \<noteq> []"
    and "\<And>h debug d os e. blt env h debug d os \<noteq> BltThrew e"
  shows "process env job st =
           (job, snd (process_matches env ps job (emit (Glob (source job) (search_paths st)) st)))"
proof -
  have "fst (process_matches env ps job (emit (Glob (source job) (search_paths st)) st)) = None"
    using process_matches_frame [OF assms(5)] by simp
  then show ?thesis
    using assms(1-4) by (auto simp add: process_def process_try_def split: prod.splits)
qed

text \<open>
  Claim C7: a path job whose pattern matches \<open>k > 1\<close> files produces \<open>k\<close> work items in
  the order of the matches, each planned on its own. The files loaded are the matches in
  order, and the stored job is untouched since every match works on a copy. For a job that
  writes to files, when every match can be read, the files opened are: with an empty
  \<open>dest\<close>, the matches with the extension replaced (under the output directory when one is
  set), one for each match; with a given \<open>dest\<close>, that one destination \<open>k\<close> times, so
  the last writer wins. The transform is taken not to throw anything but its
  \<^verbatim>\<open>RecoverableException<void>\<close>: any other exception would end the loop.
\<close>

theorem glob_fan_out:
  assumes "source_type job = SourceType_path"
    and "absolute_and_exists env (parse_path env (source job)) st = Inr False"
    and "glob env (trace st) (source job) (search_paths st) = Inr ps"
    and "1 < length ps"
    and "\<And>h debug d os e. blt env h debug d os \<noteq> BltThrew e"
  shows "fst (process env job st) = job
       \<and> loaded (trace (snd (process env job st))) = loaded (trace st) @ ps
       \<and> (dest_type job = DestType_path
            \<and> (\<forall>h. \<forall>p\<in>set ps. \<not> isl (get_file_contents_string env h p)) \<longrightarrow>
          (dest job = [] \<longrightarrow>
             opened (trace (snd (process env job st))) =
               opened (trace st) @
               map (\<lambda>p. replace_extension env
                          (if output_path st = [] then p else path_append env (output_path st) p)
                          ''lua'') ps)
          \<and> (dest job \<noteq> [] \<longrightarrow>
             opened (trace (snd (process env job st))) =
               opened (trace st) @
               replicate (length ps)
                 (if \<not> is_absolute env (dest job) \<and> output_path st \<noteq> []
                  then path_append env (output_path st) (dest job) else dest job)))"
proof -
  let ?st0 = "emit (Glob (source job) (search_paths st)) st"
  have ne: "ps \<noteq> []" using assms(4) by auto
  have p: "process env job st = (job, snd (process_matches env ps job ?st0))"
    by (rule process_glob_branch [OF assms(1-3) ne assms(5)])
  have st0: "loaded (trace ?st0) = loaded (trace st)" "opened (trace ?st0) = opened (trace st)"
    "output_path ?st0 = output_path st"
    by (simp_all add: emit_def load_of_def open_of_def)
  have l: "loaded (trace (snd (process env job st))) = loaded (trace st) @ ps"
    using process_matches_frame [OF assms(5), of ps job ?st0] p st0 by simp
  have o: "opened (trace (snd (process env job st))) =
             opened (trace st) @ map (\<lambda>p. dest (plan_path_dest env (output_path st) p job)) ps"
    if "dest_type job = DestType_path"
      and "\<forall>h. \<forall>p\<in>set ps. \<not> isl (get_file_contents_string env h p)"
    using process_matches_opened [OF assms(5) that(1), of ps ?st0] that(2) p st0 by simp
  have e: "map (\<lambda>p. dest (plan_path_dest env (output_path st) p job)) ps =
             map (\<lambda>p. replace_extension env
                        (if output_path st = [] then p else path_append env (output_path st) p)
                        ''lua'') ps"
    if "dest_type job = DestType_path" and "dest job = []"
    using that by (simp add: plan_path_dest_def)
  have n: "map (\<lambda>p. dest (plan_path_dest env (output_path st) p job)) ps =
             replicate (length ps)
               (if \<not> is_absolute env (dest job) \<and> output_path st \<noteq> []
                then path_append env (output_path st) (dest job) else dest job)"
    if "dest_type job = DestType_path" and "dest job \<noteq> []"
    using that by (simp add: plan_path_dest_def map_replicate_const)
  show ?thesis
    using p l o e n by simp
qed

theorem glob_fan_out_witness:
  "loaded (trace (snd (process example_env
      \<lparr>source = ''*.blt'', dest = [], source_type = SourceType_path, dest_type = DestType_path\<rparr>
      (initial_app\<lparr>search_paths := [''/work'']\<rparr>)))) = [''/work/a.blt'', ''/work/b.blt'']
   \<and> opened (trace (snd (process example_env
      \<lparr>source = ''*.blt'', dest = [], source_type = SourceType_path, dest_type = DestType_path\<rparr>
      (initial_app\<lparr>search_paths := [''/work'']\<rparr>)))) = [''/work/a.lua'', ''/work/b.lua'']
   \<and> opened (trace (snd (process example_env
      \<lparr>source = ''*.blt'', dest = ''asdf'', source_type = SourceType_path,
       dest_type = DestType_path\<rparr>
      (initial_app\<lparr>search_paths := [''/work'']\<rparr>)))) = [''asdf'', ''asdf'']"
proof -
  let ?st = "initial_app\<lparr>search_paths := [''/work'']\<rparr>"
  let ?ps = "[''/work/a.blt'', ''/work/b.blt'']"
  let ?job = "\<lparr>source = ''*.blt'', dest = [], source_type = SourceType_path,
                dest_type = DestType_path\<rparr>"
  let ?job' = "\<lparr>source = ''*.blt'', dest = ''asdf'', source_type = SourceType_path,
                dest_type = DestType_path\<rparr>"
  have h1: "source_type ?job = SourceType_path" "source_type ?job' = SourceType_path"
    by simp_all
  have h2: "absolute_and_exists example_env (parse_path example_env (source ?job)) ?st = Inr False"
    "absolute_and_exists example_env (parse_path example_env (source ?job')) ?st = Inr False"
    by (simp_all add: absolute_and_exists_def example_env_def posix_env_def posix_is_absolute_def)
  have h3: "glob example_env (trace ?st) (source ?job) (search_paths ?st) = Inr ?ps"
    "glob example_env (trace ?st) (source ?job') (search_paths ?st) = Inr ?ps"
    by (simp_all add: example_env_def posix_env_def example_world_def)
  have h4: "1 < length ?ps" by simp
  have h5: "\<And>h debug d os e. blt example_env h debug d os \<noteq> BltThrew e"
    by (simp add: example_env_def posix_env_def)
  have rd: "\<forall>h. \<forall>p\<in>set ?ps. \<not> isl (get_file_contents_string example_env h p)"
    by (simp add: example_env_def posix_env_def example_world_def)
  have abs: "\<not> is_absolute example_env ''asdf''"
    by (simp add: example_env_def posix_env_def posix_is_absolute_def)
  have rep: "replace_extension example_env ''/work/a.blt'' ''lua'' = ''/work/a.lua''"
    "replace_extension example_env ''/work/b.blt'' ''lua'' = ''/work/b.lua''"
    by (simp_all add: example_env_def posix_env_def posix_replace_extension_def posix_stem_def)
  note t = glob_fan_out [OF h1(1) h2(1) h3(1) h4 h5]
  note t' = glob_fan_out [OF h1(2) h2(2) h3(2) h4 h5]
  have c1: "loaded (trace (snd (process example_env ?job ?st))) = ?ps"
    using t by (simp add: initial_app_def)
  have c2: "opened (trace (snd (process example_env ?job ?st))) = [''/work/a.lua'', ''/work/b.lua'']"
    using t rd rep by (simp add: initial_app_def)
  have c3: "opened (trace (snd (process example_env ?job' ?st))) = [''asdf'', ''asdf'']"
    using t' rd abs by (simp add: initial_app_def numeral_2_eq_2)
  show ?thesis using c1 c2 c3 by simp
qed

subsection \<open>The default destination\<close>

text \<open>
  Claim C8: a work item for a file, written to a file (\<open>dest_type\<close> is the path kind, the
  only kind for which a destination path is planned) and with an empty \<open>dest\<close>, gets as
  its destination the source path with the extension replaced by \<^verbatim>\<open>lua\<close> when no output
  directory is set, and the output directory joined with the source path, with the
  extension replaced, when one is set. That is the \<open>dest\<close> \<^verbatim>\<open>process_path_\<close> leaves in the
  job, and the file it opens once the source has been read.
\<close>

theorem default_destination:
  assumes "dest_type job = DestType_path"
    and "dest job = []"
  shows "(output_path st = [] \<longrightarrow>
            dest (fst (snd (process_path env p job st))) = replace_extension env p ''lua'')
       \<and> (output_path st \<noteq> [] \<longrightarrow>
            dest (fst (snd (process_path env p job st))) =
              replace_extension env (path_append env (output_path st) p) ''lua'')
       \<and> (\<not> isl (get_file_contents_string env (trace st) p) \<longrightarrow>
            opened (trace (snd (snd (process_path env p job st)))) =
              opened (trace st) @ [dest (fst (snd (process_path env p job st)))])"
  using assms
  by (simp add: process_path_job process_path_opened plan_path_dest_def)

theorem default_destination_witness:
  "dest (fst (snd (process_path example_env ''/src/foo.blt''
      \<lparr>source = ''/src/foo.blt'', dest = [], source_type = SourceType_path,
       dest_type = DestType_path\<rparr> initial_app))) = ''/src/foo.lua''
   \<and> dest (fst (snd (process_path example_env ''bar.blt''
      \<lparr>source = ''bar.blt'', dest = [], source_type = SourceType_path,
       dest_type = DestType_path\<rparr> (initial_app\<lparr>output_path := ''/work/out''\<rparr>)))) = ''/work/out/bar.lua''
   \<and> opened (trace (snd (snd (process_path example_env ''/src/foo.blt''
      \<lparr>source = ''/src/foo.blt'', dest = [], source_type = SourceType_path,
       dest_type = DestType_path\<rparr> initial_app)))) = [''/src/foo.lua'']"
proof -
  let ?job = "\<lparr>source = ''/src/foo.blt'', dest = [], source_type = SourceType_path,
       dest_type = DestType_path\<rparr>"
  let ?job' = "\<lparr>source = ''bar.blt'', dest = [], source_type = SourceType_path,
       dest_type = DestType_path\<rparr>"
  let ?st' = "initial_app\<lparr>output_path := ''/work/out''\<rparr>"
  have h: "dest_type ?job = DestType_path" "dest ?job = []"
    "dest_type ?job' = DestType_path" "dest ?job' = []"
    by simp_all
  have o: "output_path initial_app = []" "output_path ?st' \<noteq> []" "output_path ?st' = ''/work/out''"
    by (simp_all add: initial_app_def)
  have rd: "\<not> isl (get_file_contents_string example_env (trace initial_app) ''/src/foo.blt'')"
    by (simp add: example_env_def posix_env_def example_world_def)
  have rep: "replace_extension example_env ''/src/foo.blt'' ''lua'' = ''/src/foo.lua''"
    "replace_extension example_env (path_append example_env ''/work/out'' ''bar.blt'') ''lua''
       = ''/work/out/bar.lua''"
    by (simp_all add: example_env_def posix_env_def posix_replace_extension_def posix_stem_def
          posix_append_def posix_is_absolute_def)
  note t = default_destination [OF h(1,2), of initial_app example_env "''/src/foo.blt''"]
  note t' = default_destination [OF h(3,4), of ?st' example_env "''bar.blt''"]
  have c1: "dest (fst (snd (process_path example_env ''/src/foo.blt'' ?job initial_app)))
              = ''/src/foo.lua''"
    using t [THEN conjunct1] o(1) rep(1) by simp
  have c2: "dest (fst (snd (process_path example_env ''bar.blt'' ?job' ?st'))) = ''/work/out/bar.lua''"
    using t' [THEN conjunct2, THEN conjunct1] o(2,3) rep(2) by simp
  have c3: "opened (trace (snd (snd (process_path example_env ''/src/foo.blt'' ?job initial_app))))
              = [''/src/foo.lua'']"
    using t [THEN conjunct2, THEN conjunct2] rd c1 by (simp add: initial_app_def)
  show ?thesis using c1 c2 c3 by simp
qed

subsection \<open>An empty job list\<close>

text \<open>
  Claim C9: when the command line has been processed without an exception, no job was
  declared and neither help nor version was asked for, the constructor prints the help text
  with the version and license lines and sets the status to 1, and \<^verbatim>\<open>operator()\<close> returns
  1 at once: the help text is the only effect of the run.
\<close>

theorem no_jobs_shows_help:
  assumes "proc_run env args (initial_locals, initial_app) = (None, l, st)"
    and "\<not> show_help l"
    and "\<not> show_version l"
    and "jobs st = []"
  shows "fst (run env args) = 1
       \<and> trace (snd (run env args)) = [DescribeHelp (help_query l) True]
       \<and> jobs (snd (run env args)) = []"
proof -
  have f: "trace st = []" "status st = 0"
    using proc_run_frame [OF assms(1)] by (simp_all add: initial_app_def)
  have c: "BltcApp_ctor env args = emit (DescribeHelp (help_query l) True) (st\<lparr>status := 1\<rparr>)"
    using assms by (simp add: BltcApp_ctor_def after_parse_def)
  have r: "run env args = (1, emit (DescribeHelp (help_query l) True) (st\<lparr>status := 1\<rparr>))"
    by (simp add: run_def c operator_call_def emit_def)
  show ?thesis
    using f assms(4) by (simp add: r emit_def)
qed

theorem no_jobs_shows_help_witness:
  "fst (run example_env [FlagDebug, OptInputDir ''/src'']) = 1
   \<and> trace (snd (run example_env [FlagDebug, OptInputDir ''/src''])) = [DescribeHelp [] True]"
proof -
  let ?l = "initial_locals"
  let ?st = "initial_app\<lparr>debug_mode := True, search_paths := [''/src'']\<rparr>"
  have h1: "proc_run example_env [FlagDebug, OptInputDir ''/src''] (initial_locals, initial_app)
              = (None, ?l, ?st)"
    by (simp add: example_env_def posix_env_def initial_app_def)
  have h2: "\<not> show_help ?l" "\<not> show_version ?l" by (simp_all add: initial_locals_def)
  have h3: "jobs ?st = []" by (simp add: initial_app_def)
  show ?thesis
    using no_jobs_shows_help [OF h1 h2 h3] by (simp add: initial_locals_def)
qed

subsection \<open>Setting up the output directory\<close>

text \<open>
  Claim C10: \<^verbatim>\<open>operator()\<close> is entered with status 0 and an output directory, the
  search path is in place, and \<^verbatim>\<open>fs::absolute\<close> gives the path \<open>ap\<close>. If \<open>ap\<close> exists and
  is not a directory, the call returns 5; if \<open>ap\<close> does not exist and
  \<^verbatim>\<open>fs::create_directories\<close> throws a filesystem error, the call returns 1. Either way no
  job has been touched: the trace and the job list are as they were.
\<close>

theorem output_directory_setup_failure:
  assumes "status st = 0"
    and "default_search_paths env st = Inr st1"
    and "output_path st \<noteq> []"
    and "fs_absolute env (output_path st) = Inr ap"
  shows "(fs_exists env (trace st) ap = Inr True \<and> fs_is_directory env (trace st) ap = Inr False
            \<longrightarrow> fst (operator_call env st) = 5
              \<and> trace (snd (operator_call env st)) = trace st
              \<and> jobs (snd (operator_call env st)) = jobs st)
       \<and> (fs_exists env (trace st) ap = Inr False
            \<and> fs_create_directories env (trace st) ap = Some FilesystemError
            \<longrightarrow> fst (operator_call env st) = 1
              \<and> trace (snd (operator_call env st)) = trace st
              \<and> jobs (snd (operator_call env st)) = jobs st)"
proof -
  note f = default_search_paths_frame [OF assms(2)]
  have not_dir: "operator_call env st = (5, st1\<lparr>output_path := ap, status := 5\<rparr>)"
    if "fs_exists env (trace st) ap = Inr True" "fs_is_directory env (trace st) ap = Inr False"
    using that assms f
    by (simp add: operator_call_def configure_paths_def ensure_directories_def)
  have create: "operator_call env st = (1, st1\<lparr>output_path := ap, status := 1\<rparr>)"
    if "fs_exists env (trace st) ap = Inr False"
      "fs_create_directories env (trace st) ap = Some FilesystemError"
    using that assms f
    by (simp add: operator_call_def configure_paths_def ensure_directories_def)
  show ?thesis
    using not_dir create f by auto
qed

theorem output_directory_setup_failure_witness:
  "fst (operator_call example_env
      (initial_app\<lparr>jobs := [\<lparr>source = ''*.blt'', dest = [], source_type = SourceType_path,
                               dest_type = DestType_path\<rparr>],
                    output_path := ''/src/foo.blt''\<rparr>)) = 5
   \<and> trace (snd (operator_call example_env
      (initial_app\<lparr>jobs := [\<lparr>source = ''*.blt'', dest = [], source_type = SourceType_path,
                               dest_type = DestType_path\<rparr>],
                    output_path := ''/src/foo.blt''\<rparr>))) = []
   \<and> fst (operator_call example_env
      (initial_app\<lparr>jobs := [\<lparr>source = ''*.blt'', dest = [], source_type = SourceType_path,
                               dest_type = DestType_path\<rparr>],
                    output_path := ''/proc/out''\<rparr>)) = 1
   \<and> trace (snd (operator_call example_env
      (initial_app\<lparr>jobs := [\<lparr>source = ''*.blt'', dest = [], source_type = SourceType_path,
                               dest_type = DestType_path\<rparr>],
                    output_path := ''/proc/out''\<rparr>))) = []"
proof -
  let ?js = "[\<lparr>source = ''*.blt'', dest = [], source_type = SourceType_path,
               dest_type = DestType_path\<rparr>]"
  let ?a = "initial_app\<lparr>jobs := ?js, output_path := ''/src/foo.blt''\<rparr>"
  let ?b = "initial_app\<lparr>jobs := ?js, output_path := ''/proc/out''\<rparr>"
  have a1: "status ?a = 0" and b1: "status ?b = 0" by (simp_all add: initial_app_def)
  have a2: "default_search_paths example_env ?a = Inr (?a\<lparr>search_paths := [''/work'']\<rparr>)"
    and b2: "default_search_paths example_env ?b = Inr (?b\<lparr>search_paths := [''/work'']\<rparr>)"
    by (simp_all add: default_search_paths_def example_env_def posix_env_def initial_app_def)
  have a3: "output_path ?a \<noteq> []" and b3: "output_path ?b \<noteq> []" by simp_all
  have a4: "fs_absolute example_env (output_path ?a) = Inr ''/src/foo.blt''"
    and b4: "fs_absolute example_env (output_path ?b) = Inr ''/proc/out''"
    by (simp_all add: example_env_def posix_env_def posix_append_def posix_is_absolute_def)
  have a5: "fs_exists example_env (trace ?a) ''/src/foo.blt'' = Inr True
            \<and> fs_is_directory example_env (trace ?a) ''/src/foo.blt'' = Inr False"
    by (simp add: example_env_def posix_env_def example_world_def initial_app_def)
  have b5: "fs_exists example_env (trace ?b) ''/proc/out'' = Inr False
            \<and> fs_create_directories example_env (trace ?b) ''/proc/out'' = Some FilesystemError"
    by (simp add: example_env_def posix_env_def example_world_def initial_app_def)
  have ca: "fst (operator_call example_env ?a) = 5 \<and> trace (snd (operator_call example_env ?a)) = []"
    using output_directory_setup_failure [OF a1 a2 a3 a4] a5 by (simp add: initial_app_def)
  have cb: "fst (operator_call example_env ?b) = 1 \<and> trace (snd (operator_call example_env ?b)) = []"
    using output_directory_setup_failure [OF b1 b2 b3 b4] b5 by (simp add: initial_app_def)
  show ?thesis using ca cb by simp
qed

end
